theory Spec2Isabelle
  imports Main
begin

section \<open>The process table as the program sees it\<close>

text \<open>
  \<^verbatim>\<open>ProcessHierarchy.c\<close> reads the process table through \<^verbatim>\<open>/proc\<close> and acts
  on it with \<^verbatim>\<open>kill(2)\<close>. Process ids (\<^verbatim>\<open>pid_t\<close>, a 32-bit \<^verbatim>\<open>int\<close>) and the
  counters of the program are modelled as \<open>int\<close>: every counter is bounded by the number
  of directory entries or by the literal 1000, so no arithmetic of the program overflows.
  The one place where a value is cut to 32 bits is the result of \<^verbatim>\<open>atoi\<close>, and there
  the cut is written out.
\<close>

type_synonym pid_t = int
type_synonym errno = int

text \<open>The struct \<^verbatim>\<open>ProcessInfo\<close>.\<close>

record ProcessInfo =
  pid :: pid_t
  ppid :: pid_t
  state :: char

text \<open>
  What \<^verbatim>\<open>fopen\<close> and \<^verbatim>\<open>fscanf(fp, "%d %*s %c %d", ...)\<close> make of
  \<^verbatim>\<open>/proc/<pid>/stat\<close>: the file cannot be opened, or the scan stops after having
  assigned none, one, two or all three of the fields (in the order pid, state, ppid).
\<close>

datatype stat_read =
    No_file
  | Scan_none
  | Scan_pid pid_t
  | Scan_pid_state pid_t char
  | Scan_all pid_t char pid_t

text \<open>
  The process table at one moment: the names \<^verbatim>\<open>readdir\<close> yields for
  \<^verbatim>\<open>/proc\<close>, in its order (or the \<^verbatim>\<open>errno\<close> of a failed \<^verbatim>\<open>opendir\<close>), and
  the outcome of reading each stat file.
\<close>

record sys =
  proc_dir :: "errno + string list"
  stat_file :: "pid_t \<Rightarrow> stat_read"

datatype signal = SIGKILL | SIGSTOP | SIGCONT

text \<open>
  \<^verbatim>\<open>kill(pid, sig)\<close>: \<open>None\<close> on success, the \<^verbatim>\<open>errno\<close> on failure, and the
  process table afterwards. The operating system is a parameter of every function that
  sends signals.
\<close>

type_synonym kernel = "pid_t \<Rightarrow> signal \<Rightarrow> sys \<Rightarrow> errno option \<times> sys"

text \<open>The messages of \<^verbatim>\<open>print_error\<close>, one constructor for each call site.\<close>

datatype error_msg =
    Cannot_access_proc
  | Cannot_access_proc_grandchildren
  | Failed_kill_root
  | Failed_kill_parent pid_t pid_t
  | Failed_kill_descendant pid_t
  | Failed_kill_missed pid_t
  | Failed_stop
  | Failed_continue

text \<open>The lines written to standard output, one constructor for each format string.\<close>

datatype out_line =
    Notice_not_in_tree pid_t pid_t
  | Basic_info pid_t pid_t
  | Defunct_count int
  | Pid_line pid_t
  | Root_terminated pid_t
  | Status_line pid_t bool
  | Killed_parent pid_t pid_t
  | No_zombies_found pid_t
  | Killed_descendant pid_t
  | Killed_missed pid_t
  | Stopped_descendant pid_t
  | Continued_descendant pid_t

text \<open>The lines written to standard error.\<close>

datatype err_line =
    Err_arg_count
  | Usage string
  | Example string
  | Err_pids_not_positive
  | Got_pids pid_t pid_t
  | Err_root_missing pid_t
  | Err_no_info pid_t
  | Err_no_status pid_t
  | Err_invalid_option string
  | Valid_options
  | Error_line error_msg errno
  | Warn_too_many
  | Note_missed int

text \<open>
  Everything the program does to the outside world, in the order it does it: opening
  \<^verbatim>\<open>/proc\<close>, reading one stat file, sending a signal, writing a line.
\<close>

datatype event =
    Opendir_proc
  | Fopen_stat pid_t
  | Sys_kill pid_t signal
  | Stdout out_line
  | Stderr err_line

section \<open>The C library functions the program calls\<close>

definition isdigit :: "char \<Rightarrow> bool" where
  "isdigit c = (48 \<le> (of_char c :: nat) \<and> (of_char c :: nat) \<le> 57)"

definition isspace :: "char \<Rightarrow> bool" where
  "isspace c = ((of_char c :: nat) = 32 \<or> (9 \<le> (of_char c :: nat) \<and> (of_char c :: nat) \<le> 13))"

text \<open>
  \<^verbatim>\<open>atoi\<close> is \<^verbatim>\<open>(int) strtol(s, NULL, 10)\<close>, as the C library of the platform
  computes it. \<^verbatim>\<open>strtol\<close> skips leading white space, takes an optional sign and the
  longest run of decimal digits, and saturates at the ends of the 64-bit \<^verbatim>\<open>long\<close>;
  the conversion to \<^verbatim>\<open>int\<close> keeps the low 32 bits as a signed value. So
  \<^verbatim>\<open>atoi("4294967297")\<close> is 1.
\<close>

fun atoi_digits :: "int \<Rightarrow> string \<Rightarrow> int" where
  "atoi_digits acc [] = acc"
| "atoi_digits acc (c # cs) =
     (if isdigit c then atoi_digits (acc * 10 + (int (of_char c) - 48)) cs else acc)"

definition strtol :: "string \<Rightarrow> int" where
  "strtol s =
     max (- 9223372036854775808) (min 9223372036854775807
       (case dropWhile isspace s of
          [] \<Rightarrow> 0
        | c # cs \<Rightarrow>
            if c = CHR ''-'' then - atoi_digits 0 cs
            else if c = CHR ''+'' then atoi_digits 0 cs
            else atoi_digits 0 (c # cs)))"

definition int_of_long :: "int \<Rightarrow> int" where
  "int_of_long v = (v + 2147483648) mod 4294967296 - 2147483648"

definition atoi :: "string \<Rightarrow> int" where
  "atoi s = int_of_long (strtol s)"

text \<open>The test \<^verbatim>\<open>isdigit(*entry->d_name)\<close> on the first character of an entry name.\<close>

definition numeric_entry :: "string \<Rightarrow> bool" where
  "numeric_entry name = (case name of [] \<Rightarrow> False | c # cs \<Rightarrow> isdigit c)"

section \<open>Reading one process\<close>

text \<open>\<open>emit es r\<close>: the events \<open>es\<close> happen, then the computation \<open>r\<close>.\<close>

definition emit :: "event list \<Rightarrow> 'a \<times> event list \<Rightarrow> 'a \<times> event list" where
  "emit es r = (fst r, es @ snd r)"

definition print_error :: "error_msg \<Rightarrow> errno \<Rightarrow> event list" where
  "print_error msg errnum = [Stderr (Error_line msg errnum)]"

text \<open>
  \<^verbatim>\<open>get_process_info\<close> starts from \<^verbatim>\<open>{0, 0, ' '}\<close> and returns whatever the scan
  has assigned, also when fewer than three fields were converted.
\<close>

definition get_process_info :: "sys \<Rightarrow> pid_t \<Rightarrow> ProcessInfo" where
  "get_process_info w p =
     (case stat_file w p of
        No_file \<Rightarrow> \<lparr>pid = 0, ppid = 0, state = CHR '' ''\<rparr>
      | Scan_none \<Rightarrow> \<lparr>pid = 0, ppid = 0, state = CHR '' ''\<rparr>
      | Scan_pid a \<Rightarrow> \<lparr>pid = a, ppid = 0, state = CHR '' ''\<rparr>
      | Scan_pid_state a c \<Rightarrow> \<lparr>pid = a, ppid = 0, state = c\<rparr>
      | Scan_all a c b \<Rightarrow> \<lparr>pid = a, ppid = b, state = c\<rparr>)"

section \<open>Tree membership\<close>

text \<open>
  The loop of \<^verbatim>\<open>is_in_tree\<close>:
  \<^verbatim>\<open>while (current != 0 && iterations++ < 1000) { if (current == root_pid) return 1;
  info = get_process_info(current); current = info.ppid; }\<close>, followed by
  \<^verbatim>\<open>return 0\<close>. The result comes with the stat files read on the way.
\<close>

function is_in_tree_loop :: "sys \<Rightarrow> pid_t \<Rightarrow> pid_t \<Rightarrow> int \<Rightarrow> bool \<times> event list" where
  "is_in_tree_loop w root_pid current iterations =
     (if current \<noteq> 0 \<and> iterations < 1000 then
        (if current = root_pid then (True, [])
         else emit [Fopen_stat current]
                (is_in_tree_loop w root_pid (ppid (get_process_info w current)) (iterations + 1)))
      else (False, []))"
  by pat_completeness auto
termination
  by (relation "measure (\<lambda>(w, root_pid, current, iterations). nat (1000 - iterations))") auto

definition is_in_tree :: "sys \<Rightarrow> pid_t \<Rightarrow> pid_t \<Rightarrow> bool \<times> event list" where
  "is_in_tree w root_pid target_pid =
     (if root_pid = target_pid then (True, [])
      else
        let info = get_process_info w target_pid in
        if pid info = 0 then (False, [Fopen_stat target_pid])
        else emit [Fopen_stat target_pid] (is_in_tree_loop w root_pid (ppid info) 0))"

definition print_basic_info :: "sys \<Rightarrow> pid_t \<Rightarrow> event list" where
  "print_basic_info w p =
     (let info = get_process_info w p in
      if pid info = 0 then [Fopen_stat p, Stderr (Err_no_info p)]
      else [Fopen_stat p, Stdout (Basic_info (pid info) (ppid info))])"

section \<open>Relationship queries\<close>

text \<open>
  Each \<^verbatim>\<open>while ((entry = readdir(dir)) != NULL)\<close> loop is a recursion over the names
  of the directory; \<^verbatim>\<open>continue\<close> is the recursive call on the remaining names.
  A query sends no signal, so all its reads see one process table: the table is a
  snapshot, fixed for the length of the query.
\<close>

fun count_defunct_loop :: "sys \<Rightarrow> pid_t \<Rightarrow> string list \<Rightarrow> int \<Rightarrow> int \<times> event list" where
  "count_defunct_loop w tp [] count = (count, [])"
| "count_defunct_loop w tp (name # rest) count =
     (if \<not> numeric_entry name then count_defunct_loop w tp rest count
      else
        let curr_pid = atoi name; info = get_process_info w curr_pid in
        if pid info = 0 then emit [Fopen_stat curr_pid] (count_defunct_loop w tp rest count)
        else
          let r = is_in_tree w tp curr_pid in
          emit (Fopen_stat curr_pid # snd r)
            (count_defunct_loop w tp rest
               (if fst r \<and> state info = CHR ''Z'' then count + 1 else count)))"

definition count_defunct_descendants :: "sys \<Rightarrow> pid_t \<Rightarrow> int \<times> event list" where
  "count_defunct_descendants w tp =
     (case proc_dir w of
        Inl e \<Rightarrow> (- 1, Opendir_proc # print_error Cannot_access_proc e)
      | Inr names \<Rightarrow> emit [Opendir_proc] (count_defunct_loop w tp names 0))"

fun non_direct_loop :: "sys \<Rightarrow> pid_t \<Rightarrow> pid_t \<Rightarrow> string list \<Rightarrow> event list" where
  "non_direct_loop w tp parent [] = []"
| "non_direct_loop w tp parent (name # rest) =
     (if \<not> numeric_entry name then non_direct_loop w tp parent rest
      else
        let curr_pid = atoi name; info = get_process_info w curr_pid in
        if pid info = 0 then Fopen_stat curr_pid # non_direct_loop w tp parent rest
        else
          let r = is_in_tree w tp curr_pid in
          Fopen_stat curr_pid # snd r
            @ (if fst r \<and> ppid info \<noteq> parent \<and> curr_pid \<noteq> tp
               then [Stdout (Pid_line curr_pid)] else [])
            @ non_direct_loop w tp parent rest)"

definition list_non_direct_descendants :: "sys \<Rightarrow> pid_t \<Rightarrow> pid_t \<Rightarrow> event list" where
  "list_non_direct_descendants w tp parent =
     (case proc_dir w of
        Inl e \<Rightarrow> Opendir_proc # print_error Cannot_access_proc e
      | Inr names \<Rightarrow> Opendir_proc # non_direct_loop w tp parent names)"

fun immediate_loop :: "sys \<Rightarrow> pid_t \<Rightarrow> string list \<Rightarrow> event list" where
  "immediate_loop w tp [] = []"
| "immediate_loop w tp (name # rest) =
     (if \<not> numeric_entry name then immediate_loop w tp rest
      else
        let curr_pid = atoi name; info = get_process_info w curr_pid in
        if pid info = 0 then Fopen_stat curr_pid # immediate_loop w tp rest
        else
          Fopen_stat curr_pid
            # (if ppid info = tp then [Stdout (Pid_line curr_pid)] else [])
            @ immediate_loop w tp rest)"

definition list_immediate_descendants :: "sys \<Rightarrow> pid_t \<Rightarrow> event list" where
  "list_immediate_descendants w tp =
     (case proc_dir w of
        Inl e \<Rightarrow> Opendir_proc # print_error Cannot_access_proc e
      | Inr names \<Rightarrow> Opendir_proc # immediate_loop w tp names)"

text \<open>
  The loops of \<^verbatim>\<open>list_siblings\<close> and \<^verbatim>\<open>list_defunct_siblings\<close> compare the
  parent of every other entry with the parent of the target; they do not test
  \<^verbatim>\<open>curr_info.pid\<close>.
\<close>

fun siblings_loop :: "sys \<Rightarrow> pid_t \<Rightarrow> ProcessInfo \<Rightarrow> string list \<Rightarrow> event list" where
  "siblings_loop w tp info [] = []"
| "siblings_loop w tp info (name # rest) =
     (if \<not> numeric_entry name then siblings_loop w tp info rest
      else
        let curr_pid = atoi name in
        if curr_pid = tp then siblings_loop w tp info rest
        else
          let curr_info = get_process_info w curr_pid in
          Fopen_stat curr_pid
            # (if ppid curr_info = ppid info then [Stdout (Pid_line curr_pid)] else [])
            @ siblings_loop w tp info rest)"

definition list_siblings :: "sys \<Rightarrow> pid_t \<Rightarrow> event list" where
  "list_siblings w tp =
     (let info = get_process_info w tp in
      if pid info = 0 then [Fopen_stat tp, Stderr (Err_no_info tp)]
      else
        case proc_dir w of
          Inl e \<Rightarrow> Fopen_stat tp # Opendir_proc # print_error Cannot_access_proc e
        | Inr names \<Rightarrow> Fopen_stat tp # Opendir_proc # siblings_loop w tp info names)"

fun defunct_siblings_loop :: "sys \<Rightarrow> pid_t \<Rightarrow> ProcessInfo \<Rightarrow> string list \<Rightarrow> event list" where
  "defunct_siblings_loop w tp info [] = []"
| "defunct_siblings_loop w tp info (name # rest) =
     (if \<not> numeric_entry name then defunct_siblings_loop w tp info rest
      else
        let curr_pid = atoi name in
        if curr_pid = tp then defunct_siblings_loop w tp info rest
        else
          let curr_info = get_process_info w curr_pid in
          Fopen_stat curr_pid
            # (if ppid curr_info = ppid info \<and> state curr_info = CHR ''Z''
               then [Stdout (Pid_line curr_pid)] else [])
            @ defunct_siblings_loop w tp info rest)"

definition list_defunct_siblings :: "sys \<Rightarrow> pid_t \<Rightarrow> event list" where
  "list_defunct_siblings w tp =
     (let info = get_process_info w tp in
      if pid info = 0 then [Fopen_stat tp, Stderr (Err_no_info tp)]
      else
        case proc_dir w of
          Inl e \<Rightarrow> Fopen_stat tp # Opendir_proc # print_error Cannot_access_proc e
        | Inr names \<Rightarrow> Fopen_stat tp # Opendir_proc # defunct_siblings_loop w tp info names)"

fun defunct_descendants_loop :: "sys \<Rightarrow> pid_t \<Rightarrow> string list \<Rightarrow> event list" where
  "defunct_descendants_loop w tp [] = []"
| "defunct_descendants_loop w tp (name # rest) =
     (if \<not> numeric_entry name then defunct_descendants_loop w tp rest
      else
        let curr_pid = atoi name; info = get_process_info w curr_pid in
        if pid info = 0 then Fopen_stat curr_pid # defunct_descendants_loop w tp rest
        else
          let r = is_in_tree w tp curr_pid in
          Fopen_stat curr_pid # snd r
            @ (if fst r \<and> state info = CHR ''Z'' \<and> curr_pid \<noteq> tp
               then [Stdout (Pid_line curr_pid)] else [])
            @ defunct_descendants_loop w tp rest)"

definition list_defunct_descendants :: "sys \<Rightarrow> pid_t \<Rightarrow> event list" where
  "list_defunct_descendants w tp =
     (case proc_dir w of
        Inl e \<Rightarrow> Opendir_proc # print_error Cannot_access_proc e
      | Inr names \<Rightarrow> Opendir_proc # defunct_descendants_loop w tp names)"

text \<open>
  \<^verbatim>\<open>list_grandchildren\<close>: for every entry whose parent is the target, \<^verbatim>\<open>/proc\<close>
  is opened and scanned again. A failure of the inner \<^verbatim>\<open>opendir\<close> ends the whole
  function.
\<close>

fun grandchildren_inner :: "sys \<Rightarrow> pid_t \<Rightarrow> string list \<Rightarrow> event list" where
  "grandchildren_inner w child_pid [] = []"
| "grandchildren_inner w child_pid (name # rest) =
     (if \<not> numeric_entry name then grandchildren_inner w child_pid rest
      else
        let grand_pid = atoi name in
        Fopen_stat grand_pid
          # (if ppid (get_process_info w grand_pid) = child_pid
             then [Stdout (Pid_line grand_pid)] else [])
          @ grandchildren_inner w child_pid rest)"

fun grandchildren_outer :: "sys \<Rightarrow> pid_t \<Rightarrow> string list \<Rightarrow> event list" where
  "grandchildren_outer w tp [] = []"
| "grandchildren_outer w tp (name # rest) =
     (if \<not> numeric_entry name then grandchildren_outer w tp rest
      else
        let child_pid = atoi name; child_info = get_process_info w child_pid in
        if ppid child_info \<noteq> tp then Fopen_stat child_pid # grandchildren_outer w tp rest
        else
          case proc_dir w of
            Inl e \<Rightarrow>
              Fopen_stat child_pid # Opendir_proc
                # print_error Cannot_access_proc_grandchildren e
          | Inr names2 \<Rightarrow>
              Fopen_stat child_pid # Opendir_proc # grandchildren_inner w child_pid names2
                @ grandchildren_outer w tp rest)"

definition list_grandchildren :: "sys \<Rightarrow> pid_t \<Rightarrow> event list" where
  "list_grandchildren w tp =
     (case proc_dir w of
        Inl e \<Rightarrow> Opendir_proc # print_error Cannot_access_proc e
      | Inr names \<Rightarrow> Opendir_proc # grandchildren_outer w tp names)"

definition print_status :: "sys \<Rightarrow> pid_t \<Rightarrow> event list" where
  "print_status w p =
     (let info = get_process_info w p in
      if pid info = 0 then [Fopen_stat p, Stderr (Err_no_status p)]
      else [Fopen_stat p, Stdout (Status_line p (state info = CHR ''Z''))])"

section \<open>Signal operations\<close>

text \<open>
  The signal operations read the process table between their calls of \<^verbatim>\<open>kill\<close>, so
  the table is threaded through their loops: each read sees the table the last signal left.
\<close>

fun zombie_parents_loop ::
  "kernel \<Rightarrow> pid_t \<Rightarrow> string list \<Rightarrow> sys \<Rightarrow> bool \<Rightarrow> (bool \<times> sys) \<times> event list" where
  "zombie_parents_loop k tp [] w killed_any = ((killed_any, w), [])"
| "zombie_parents_loop k tp (name # rest) w killed_any =
     (if \<not> numeric_entry name then zombie_parents_loop k tp rest w killed_any
      else
        let curr_pid = atoi name; info = get_process_info w curr_pid in
        if pid info = 0 then
          emit [Fopen_stat curr_pid] (zombie_parents_loop k tp rest w killed_any)
        else
          let r = is_in_tree w tp curr_pid in
          if \<not> fst r then
            emit (Fopen_stat curr_pid # snd r) (zombie_parents_loop k tp rest w killed_any)
          else if state info = CHR ''Z'' \<and> ppid info \<noteq> 0 then
            let parent_to_kill = ppid info; res = k parent_to_kill SIGKILL w in
            (case fst res of
               Some e \<Rightarrow>
                 emit (Fopen_stat curr_pid # snd r @ Sys_kill parent_to_kill SIGKILL
                         # print_error (Failed_kill_parent parent_to_kill curr_pid) e)
                   (zombie_parents_loop k tp rest (snd res) killed_any)
             | None \<Rightarrow>
                 emit (Fopen_stat curr_pid # snd r @ [Sys_kill parent_to_kill SIGKILL,
                         Stdout (Killed_parent parent_to_kill curr_pid)])
                   (zombie_parents_loop k tp rest (snd res) True))
          else
            emit (Fopen_stat curr_pid # snd r) (zombie_parents_loop k tp rest w killed_any))"

definition kill_zombie_parents :: "kernel \<Rightarrow> sys \<Rightarrow> pid_t \<Rightarrow> sys \<times> event list" where
  "kill_zombie_parents k w tp =
     (case proc_dir w of
        Inl e \<Rightarrow> (w, Opendir_proc # print_error Cannot_access_proc e)
      | Inr names \<Rightarrow>
          let r = zombie_parents_loop k tp names w False in
          (snd (fst r),
           Opendir_proc # snd r
             @ (if \<not> fst (fst r) then [Stdout (No_zombies_found tp)] else [])))"

text \<open>
  First pass of \<^verbatim>\<open>kill_descendants\<close>. The array \<^verbatim>\<open>descendants[1024]\<close> with its
  fill count \<^verbatim>\<open>descendant_count\<close> is the list of the pids stored so far; the
  \<^verbatim>\<open>break\<close> on a full array ends the loop.
\<close>

fun collect_loop ::
  "sys \<Rightarrow> pid_t \<Rightarrow> string list \<Rightarrow> pid_t list \<Rightarrow> pid_t list \<times> event list" where
  "collect_loop w tp [] descendants = (descendants, [])"
| "collect_loop w tp (name # rest) descendants =
     (if \<not> numeric_entry name then collect_loop w tp rest descendants
      else
        let curr_pid = atoi name; info = get_process_info w curr_pid in
        if pid info = 0 then emit [Fopen_stat curr_pid] (collect_loop w tp rest descendants)
        else
          let r = is_in_tree w tp curr_pid in
          if fst r \<and> curr_pid \<noteq> tp then
            (if int (length descendants) < 1024 then
               emit (Fopen_stat curr_pid # snd r)
                 (collect_loop w tp rest (descendants @ [curr_pid]))
             else (descendants, Fopen_stat curr_pid # snd r @ [Stderr Warn_too_many]))
          else emit (Fopen_stat curr_pid # snd r) (collect_loop w tp rest descendants))"

text \<open>
  \<^verbatim>\<open>for (int i = descendant_count - 1; i >= 0; i--)\<close>: the stored pids are signalled
  from the last index down to 0.
\<close>

function kill_collected ::
  "kernel \<Rightarrow> pid_t list \<Rightarrow> int \<Rightarrow> sys \<Rightarrow> sys \<times> event list" where
  "kill_collected k descendants i w =
     (if i \<ge> 0 then
        let curr_pid = descendants ! nat i; res = k curr_pid SIGKILL w in
        emit (Sys_kill curr_pid SIGKILL
                # (case fst res of
                     Some e \<Rightarrow> print_error (Failed_kill_descendant curr_pid) e
                   | None \<Rightarrow> [Stdout (Killed_descendant curr_pid)]))
          (kill_collected k descendants (i - 1) (snd res))
      else (w, []))"
  by pat_completeness auto
termination
  by (relation "measure (\<lambda>(k, descendants, i, w). nat (i + 1))") auto

fun rescan_loop ::
  "kernel \<Rightarrow> pid_t \<Rightarrow> string list \<Rightarrow> sys \<Rightarrow> int \<Rightarrow> (int \<times> sys) \<times> event list" where
  "rescan_loop k tp [] w missed = ((missed, w), [])"
| "rescan_loop k tp (name # rest) w missed =
     (if \<not> numeric_entry name then rescan_loop k tp rest w missed
      else
        let curr_pid = atoi name; info = get_process_info w curr_pid in
        if pid info = 0 then emit [Fopen_stat curr_pid] (rescan_loop k tp rest w missed)
        else
          let r = is_in_tree w tp curr_pid in
          if fst r \<and> curr_pid \<noteq> tp then
            let res = k curr_pid SIGKILL w in
            emit (Fopen_stat curr_pid # snd r @ Sys_kill curr_pid SIGKILL
                    # (case fst res of
                         Some e \<Rightarrow> print_error (Failed_kill_missed curr_pid) e
                       | None \<Rightarrow> [Stdout (Killed_missed curr_pid)]))
              (rescan_loop k tp rest (snd res) (missed + 1))
          else emit (Fopen_stat curr_pid # snd r) (rescan_loop k tp rest w missed))"

definition rescan :: "kernel \<Rightarrow> sys \<Rightarrow> pid_t \<Rightarrow> sys \<times> event list" where
  "rescan k w tp =
     (case proc_dir w of
        Inl e \<Rightarrow> (w, [Opendir_proc])
      | Inr names \<Rightarrow>
          let r = rescan_loop k tp names w 0 in
          (snd (fst r),
           Opendir_proc # snd r
             @ (if fst (fst r) > 0 then [Stderr (Note_missed (fst (fst r)))] else [])))"

definition kill_descendants :: "kernel \<Rightarrow> sys \<Rightarrow> pid_t \<Rightarrow> sys \<times> event list" where
  "kill_descendants k w tp =
     (case proc_dir w of
        Inl e \<Rightarrow> (w, Opendir_proc # print_error Cannot_access_proc e)
      | Inr names \<Rightarrow>
          let c = collect_loop w tp names [];
              descendants = fst c;
              descendant_count = int (length descendants);
              kl = kill_collected k descendants (descendant_count - 1) w
          in emit (Opendir_proc # snd c @ snd kl) (rescan k (fst kl) tp))"

fun stop_loop :: "kernel \<Rightarrow> pid_t \<Rightarrow> string list \<Rightarrow> sys \<Rightarrow> sys \<times> event list" where
  "stop_loop k tp [] w = (w, [])"
| "stop_loop k tp (name # rest) w =
     (if \<not> numeric_entry name then stop_loop k tp rest w
      else
        let curr_pid = atoi name; info = get_process_info w curr_pid in
        if pid info = 0 then emit [Fopen_stat curr_pid] (stop_loop k tp rest w)
        else
          let r = is_in_tree w tp curr_pid in
          if fst r \<and> curr_pid \<noteq> tp then
            let res = k curr_pid SIGSTOP w in
            emit (Fopen_stat curr_pid # snd r @ Sys_kill curr_pid SIGSTOP
                    # (case fst res of
                         Some e \<Rightarrow> print_error Failed_stop e
                       | None \<Rightarrow> [Stdout (Stopped_descendant curr_pid)]))
              (stop_loop k tp rest (snd res))
          else emit (Fopen_stat curr_pid # snd r) (stop_loop k tp rest w))"

definition stop_descendants :: "kernel \<Rightarrow> sys \<Rightarrow> pid_t \<Rightarrow> sys \<times> event list" where
  "stop_descendants k w tp =
     (case proc_dir w of
        Inl e \<Rightarrow> (w, Opendir_proc # print_error Cannot_access_proc e)
      | Inr names \<Rightarrow> emit [Opendir_proc] (stop_loop k tp names w))"

fun continue_loop :: "kernel \<Rightarrow> pid_t \<Rightarrow> string list \<Rightarrow> sys \<Rightarrow> sys \<times> event list" where
  "continue_loop k tp [] w = (w, [])"
| "continue_loop k tp (name # rest) w =
     (if \<not> numeric_entry name then continue_loop k tp rest w
      else
        let curr_pid = atoi name; info = get_process_info w curr_pid in
        if pid info = 0 then emit [Fopen_stat curr_pid] (continue_loop k tp rest w)
        else
          let r = is_in_tree w tp curr_pid in
          if fst r \<and> curr_pid \<noteq> tp \<and> state info = CHR ''T'' then
            let res = k curr_pid SIGCONT w in
            emit (Fopen_stat curr_pid # snd r @ Sys_kill curr_pid SIGCONT
                    # (case fst res of
                         Some e \<Rightarrow> print_error Failed_continue e
                       | None \<Rightarrow> [Stdout (Continued_descendant curr_pid)]))
              (continue_loop k tp rest (snd res))
          else emit (Fopen_stat curr_pid # snd r) (continue_loop k tp rest w))"

definition continue_descendants :: "kernel \<Rightarrow> sys \<Rightarrow> pid_t \<Rightarrow> sys \<times> event list" where
  "continue_descendants k w tp =
     (case proc_dir w of
        Inl e \<Rightarrow> (w, Opendir_proc # print_error Cannot_access_proc e)
      | Inr names \<Rightarrow> emit [Opendir_proc] (continue_loop k tp names w))"

section \<open>The entry point\<close>

text \<open>The chain of \<^verbatim>\<open>strcmp\<close> tests on the option; the result is the exit code.\<close>

definition run_option ::
  "kernel \<Rightarrow> sys \<Rightarrow> pid_t \<Rightarrow> pid_t \<Rightarrow> string \<Rightarrow> int \<times> event list" where
  "run_option k w root_pid target_pid option =
     (if option = ''-dc'' then
        let c = count_defunct_descendants w target_pid in
        (0, snd c @ (if fst c \<ge> 0 then [Stdout (Defunct_count (fst c))] else []))
      else if option = ''-ds'' then (0, list_non_direct_descendants w target_pid target_pid)
      else if option = ''-id'' then (0, list_immediate_descendants w target_pid)
      else if option = ''-lg'' then (0, list_siblings w target_pid)
      else if option = ''-lz'' then (0, list_defunct_siblings w target_pid)
      else if option = ''-df'' then (0, list_defunct_descendants w target_pid)
      else if option = ''-gc'' then (0, list_grandchildren w target_pid)
      else if option = ''-do'' then (0, print_status w target_pid)
      else if option = ''--pz'' then (0, snd (kill_zombie_parents k w target_pid))
      else if option = ''-sk'' then (0, snd (kill_descendants k w target_pid))
      else if option = ''-st'' then (0, snd (stop_descendants k w target_pid))
      else if option = ''-dt'' then (0, snd (continue_descendants k w target_pid))
      else if option = ''-rp'' then
        (0, Sys_kill root_pid SIGKILL
              # (case fst (k root_pid SIGKILL w) of
                   Some e \<Rightarrow> print_error Failed_kill_root e
                 | None \<Rightarrow> [Stdout (Root_terminated root_pid)]))
      else (1, [Stderr (Err_invalid_option option), Stderr Valid_options]))"

text \<open>
  \<^verbatim>\<open>main\<close> on the argument vector (\<^verbatim>\<open>argc\<close> is its length); the result is the exit
  code and everything the run did.
\<close>

definition program_name :: "string list \<Rightarrow> string" where
  "program_name argv = (case argv of [] \<Rightarrow> [] | a # rest \<Rightarrow> a)"

definition main :: "kernel \<Rightarrow> sys \<Rightarrow> string list \<Rightarrow> int \<times> event list" where
  "main k w argv =
     (let argc = int (length argv) in
      if argc < 3 \<or> argc > 4 then
        (1, [Stderr Err_arg_count, Stderr (Usage (program_name argv)),
             Stderr (Example (program_name argv))])
      else
        let root_pid = atoi (argv ! 1);
            target_pid = atoi (argv ! 2);
            option = (if argc = 4 then Some (argv ! 3) else None)
        in
        if root_pid \<le> 0 \<or> target_pid \<le> 0 then
          (1, [Stderr Err_pids_not_positive, Stderr (Got_pids root_pid target_pid)])
        else
          let root_info = get_process_info w root_pid in
          if pid root_info = 0 then
            (1, [Fopen_stat root_pid, Stderr (Err_root_missing root_pid)])
          else
            let r = is_in_tree w root_pid target_pid in
            if \<not> fst r then
              (0, Fopen_stat root_pid # snd r
                    @ (case option of
                         Some opt \<Rightarrow> [Stdout (Notice_not_in_tree target_pid root_pid)]
                       | None \<Rightarrow> []))
            else
              case option of
                None \<Rightarrow> (0, Fopen_stat root_pid # snd r @ print_basic_info w target_pid)
              | Some opt \<Rightarrow>
                  emit (Fopen_stat root_pid # snd r)
                    (run_option k w root_pid target_pid opt))"

section \<open>What a run shows\<close>

text \<open>The pids a run printed one per line, and the signals it sent, in order.\<close>

definition pid_lines_of :: "event \<Rightarrow> pid_t list" where
  "pid_lines_of ev = (case ev of Stdout (Pid_line p) \<Rightarrow> [p] | _ \<Rightarrow> [])"

definition printed_pids :: "event list \<Rightarrow> pid_t list" where
  "printed_pids tr = concat (map pid_lines_of tr)"

definition kills_of :: "event \<Rightarrow> (pid_t \<times> signal) list" where
  "kills_of ev = (case ev of Sys_kill p s \<Rightarrow> [(p, s)] | _ \<Rightarrow> [])"

definition signals_sent :: "event list \<Rightarrow> (pid_t \<times> signal) list" where
  "signals_sent tr = concat (map kills_of tr)"

text \<open>A stretch of a run that only reads stat files.\<close>

definition only_reads :: "event list \<Rightarrow> bool" where
  "only_reads tr = (set tr \<subseteq> range Fopen_stat)"

text \<open>
  The conditions the scans put on a directory entry, as predicates on its name: the entry
  is numeric and its record has a nonzero pid; it is moreover in the tree of \<open>tp\<close>; it is
  moreover not \<open>tp\<close> itself.
\<close>

definition fetched_entry :: "sys \<Rightarrow> string \<Rightarrow> bool" where
  "fetched_entry w name =
     (numeric_entry name \<and> pid (get_process_info w (atoi name)) \<noteq> 0)"

definition tree_entry :: "sys \<Rightarrow> pid_t \<Rightarrow> string \<Rightarrow> bool" where
  "tree_entry w tp name = (fetched_entry w name \<and> fst (is_in_tree w tp (atoi name)))"

definition descendant_entry :: "sys \<Rightarrow> pid_t \<Rightarrow> string \<Rightarrow> bool" where
  "descendant_entry w tp name = (tree_entry w tp name \<and> atoi name \<noteq> tp)"

definition zombie_entry :: "sys \<Rightarrow> string \<Rightarrow> bool" where
  "zombie_entry w name = (state (get_process_info w (atoi name)) = CHR ''Z'')"

section \<open>The ancestor chain, as the specification words it\<close>

text \<open>
  The parent link of a process is the parent pid of its record (0 when nothing could be
  read, and 0 for a process without parent). \<open>ancestors w n x\<close> follows at most \<open>n\<close>
  parent links from \<open>x\<close> and ends where a link is 0. The chain of a target starts with the
  target itself; a target whose record cannot be fetched has no ancestors.
\<close>

fun ancestors :: "sys \<Rightarrow> nat \<Rightarrow> pid_t \<Rightarrow> pid_t list" where
  "ancestors w 0 x = []"
| "ancestors w (Suc n) x =
     (let p = ppid (get_process_info w x) in if p = 0 then [] else p # ancestors w n p)"

definition ancestor_chain :: "sys \<Rightarrow> nat \<Rightarrow> pid_t \<Rightarrow> pid_t list" where
  "ancestor_chain w n target_pid =
     target_pid
       # (if pid (get_process_info w target_pid) = 0 then [] else ancestors w n target_pid)"

section \<open>Example process tables\<close>

definition stat_table :: "(pid_t \<times> stat_read) list \<Rightarrow> pid_t \<Rightarrow> stat_read" where
  "stat_table rows p = (case map_of rows p of None \<Rightarrow> No_file | Some r \<Rightarrow> r)"

text \<open>
  A small table: init (1) and the kernel thread daemon (2), both without parent, a shell
  (10) with a zombie child (20) and a live child (21), which has a child of its own (30).
  The entry 77 is still listed but its stat file is already gone.
\<close>

definition small_table :: sys where
  "small_table =
     \<lparr>proc_dir = Inr [''.'', ''..'', ''1'', ''2'', ''10'', ''20'', ''21'', ''30'', ''77'', ''self''],
      stat_file = stat_table
        [(1, Scan_all 1 (CHR ''S'') 0),
         (2, Scan_all 2 (CHR ''S'') 0),
         (10, Scan_all 10 (CHR ''S'') 1),
         (20, Scan_all 20 (CHR ''Z'') 10),
         (21, Scan_all 21 (CHR ''S'') 10),
         (30, Scan_all 30 (CHR ''S'') 21)]\<rparr>"

text \<open>A table in which process 5 is recorded as its own parent.\<close>

definition self_parent_table :: sys where
  "self_parent_table =
     \<lparr>proc_dir = Inr [''1'', ''5''],
      stat_file = stat_table
        [(1, Scan_all 1 (CHR ''S'') 0),
         (5, Scan_all 5 (CHR ''S'') 5)]\<rparr>"

text \<open>A deep table: a single line of descent, every process from 2 to 1100 the child of its
  predecessor.\<close>

definition deep_table :: sys where
  "deep_table =
     \<lparr>proc_dir = Inr [],
      stat_file = (\<lambda>p. if p = 1 then Scan_all 1 (CHR ''S'') 0
                        else if 2 \<le> p \<and> p \<le> 1100 then Scan_all p (CHR ''S'') (p - 1)
                        else No_file)\<rparr>"

text \<open>
  Two kernels: one refuses every signal with \<^verbatim>\<open>EPERM\<close> (1) and leaves the table as it
  is; the other delivers every signal, and a process that gets \<^verbatim>\<open>SIGKILL\<close> is gone
  from the table afterwards (\<^verbatim>\<open>ESRCH\<close>, 3, when it was not there).
\<close>

definition kernel_refuses :: kernel where
  "kernel_refuses p s w = (Some 1, w)"

definition kernel_delivers :: kernel where
  "kernel_delivers p s w =
     (if stat_file w p = No_file then (Some 3, w)
      else if s = SIGKILL then (None, w\<lparr>stat_file := (stat_file w)(p := No_file)\<rparr>)
      else (None, w))"




section \<open>Basic facts\<close>

declare is_in_tree_loop.simps [simp del]
declare kill_collected.simps [simp del]

lemma emit_simps [simp]: "fst (emit es r) = fst r" "snd (emit es r) = es @ snd r"
  by (simp_all add: emit_def)

lemma printed_pids_simps [simp]:
  "printed_pids [] = []"
  "printed_pids (ev # tr) = pid_lines_of ev @ printed_pids tr"
  "printed_pids (tr @ tr') = printed_pids tr @ printed_pids tr'"
  by (simp_all add: printed_pids_def)

lemma pid_lines_of_simps [simp]:
  "pid_lines_of (Stdout (Pid_line p)) = [p]"
  "pid_lines_of (Fopen_stat p) = []"
  "pid_lines_of Opendir_proc = []"
  "pid_lines_of (Sys_kill p s) = []"
  "pid_lines_of (Stderr e) = []"
  by (simp_all add: pid_lines_of_def)

lemma signals_sent_simps [simp]:
  "signals_sent [] = []"
  "signals_sent (ev # tr) = kills_of ev @ signals_sent tr"
  "signals_sent (tr @ tr') = signals_sent tr @ signals_sent tr'"
  by (simp_all add: signals_sent_def)

lemma kills_of_simps [simp]:
  "kills_of (Sys_kill p s) = [(p, s)]"
  "kills_of (Fopen_stat p) = []"
  "kills_of Opendir_proc = []"
  "kills_of (Stdout l) = []"
  "kills_of (Stderr e) = []"
  by (simp_all add: kills_of_def)

lemma signals_sent_set: "((p, s) \<in> set (signals_sent tr)) = (Sys_kill p s \<in> set tr)"
  by (induction tr) (auto simp: kills_of_def split: event.splits)

lemma print_error_simps [simp]:
  "printed_pids (print_error m e) = []"
  "signals_sent (print_error m e) = []"
  by (simp_all add: print_error_def)

lemma only_reads_simps [simp]:
  "only_reads []"
  "only_reads (Fopen_stat p # tr) = only_reads tr"
  "only_reads (tr @ tr') = (only_reads tr \<and> only_reads tr')"
  by (auto simp: only_reads_def)

lemma only_reads_projections:
  assumes "only_reads tr"
  shows "printed_pids tr = []" and "signals_sent tr = []" and "Stderr e \<notin> set tr"
    and "Sys_kill p s \<notin> set tr"
  using assms by (induction tr) (auto simp: only_reads_def)

lemma is_in_tree_loop_reads: "only_reads (snd (is_in_tree_loop w r c i))"
proof (induction w r c i rule: is_in_tree_loop.induct)
  case (1 w r c i)
  then show ?case by (subst is_in_tree_loop.simps) simp
qed

lemma is_in_tree_reads: "only_reads (snd (is_in_tree w r t))"
  by (simp add: is_in_tree_def Let_def is_in_tree_loop_reads)

lemmas is_in_tree_silent [simp] = only_reads_projections [OF is_in_tree_reads]

lemma is_in_tree_self [simp]: "is_in_tree w t t = (True, [])"
  by (simp add: is_in_tree_def)

section \<open>The walk up the parent links\<close>

lemma ancestors_nonzero: "0 \<notin> set (ancestors w n x)"
  by (induction n arbitrary: x) (auto simp: Let_def)

lemma ancestors_length: "length (ancestors w n x) \<le> n"
  by (induction n arbitrary: x) (auto simp: Let_def)

lemma loop_result:
  "0 \<le> i \<Longrightarrow> i \<le> 1000 \<Longrightarrow>
   fst (is_in_tree_loop w r c i) =
     (c \<noteq> 0 \<and> i < 1000 \<and> r \<in> set (c # ancestors w (nat (999 - i)) c))"
proof (induction w r c i rule: is_in_tree_loop.induct)
  case (1 w r c i)
  show ?case
  proof (cases "c \<noteq> 0 \<and> i < 1000")
    case False
    then show ?thesis by (subst is_in_tree_loop.simps) auto
  next
    case True
    show ?thesis
    proof (cases "c = r")
      case True
      with \<open>c \<noteq> 0 \<and> i < 1000\<close> show ?thesis by (subst is_in_tree_loop.simps) auto
    next
      case False
      have ih: "fst (is_in_tree_loop w r (ppid (get_process_info w c)) (i + 1)) =
        (ppid (get_process_info w c) \<noteq> 0 \<and> i + 1 < 1000 \<and>
         r \<in> set (ppid (get_process_info w c) # ancestors w (nat (999 - (i + 1))) (ppid (get_process_info w c))))"
        using "1.IH" True False "1.prems" by simp
      show ?thesis
      proof (cases "i < 999")
        case True
        then have m: "nat (999 - i) = Suc (nat (998 - i))" "999 - (i + 1) = 998 - i"
          using "1.prems" by simp_all
        show ?thesis using True False \<open>c \<noteq> 0 \<and> i < 1000\<close> ih m
          by (subst is_in_tree_loop.simps) (auto simp: Let_def)
      next
        case F: False
        then have "i = 999" using \<open>c \<noteq> 0 \<and> i < 1000\<close> by simp
        then show ?thesis using False \<open>c \<noteq> 0 \<and> i < 1000\<close> ih
          by (subst is_in_tree_loop.simps) (auto simp: Let_def)
      qed
    qed
  qed
qed

lemma ancestors_1000:
  "ancestors w 1000 x =
     (let p = ppid (get_process_info w x) in if p = 0 then [] else p # ancestors w 999 p)"
  using ancestors.simps(2) [of w 999 x] by simp

section \<open>What the scans print\<close>

lemma count_defunct_loop_result:
  "fst (count_defunct_loop w tp names c) =
     c + int (length (filter (\<lambda>n. tree_entry w tp n \<and> zombie_entry w n) names))"
  by (induction names arbitrary: c)
     (simp_all add: Let_def tree_entry_def fetched_entry_def zombie_entry_def)

lemma defunct_descendants_loop_printed:
  "printed_pids (defunct_descendants_loop w tp names) =
     map atoi (filter (\<lambda>n. descendant_entry w tp n \<and> zombie_entry w n) names)"
  by (induction names)
     (auto simp: Let_def descendant_entry_def tree_entry_def fetched_entry_def zombie_entry_def)

lemma immediate_loop_printed:
  "printed_pids (immediate_loop w tp names) =
     map atoi (filter (\<lambda>n. fetched_entry w n \<and> ppid (get_process_info w (atoi n)) = tp) names)"
  by (induction names) (auto simp: Let_def fetched_entry_def)

lemma grandchildren_inner_printed:
  "printed_pids (grandchildren_inner w c names) =
     map atoi (filter (\<lambda>n. numeric_entry n \<and> ppid (get_process_info w (atoi n)) = c) names)"
  by (induction names) (auto simp: Let_def)

lemma grandchildren_outer_printed:
  "g \<in> set (printed_pids (grandchildren_outer w tp names)) \<Longrightarrow>
   ppid (get_process_info w (ppid (get_process_info w g))) = tp"
  by (induction names)
     (auto simp: Let_def grandchildren_inner_printed split: if_splits sum.splits)

lemma length_filter_split:
  "length (filter P xs) = length (filter (\<lambda>x. P x \<and> Q x) xs) + length (filter (\<lambda>x. P x \<and> \<not> Q x) xs)"
  by (induction xs) auto

section \<open>The passes of \<^verbatim>\<open>kill_descendants\<close>\<close>

lemma collect_loop_result:
  "length ds \<le> 1024 \<Longrightarrow>
   fst (collect_loop w tp names ds) =
     ds @ take (1024 - length ds) (map atoi (filter (descendant_entry w tp) names))"
proof (induction names arbitrary: ds)
  case Nil
  then show ?case by simp
next
  case (Cons name rest)
  show ?case
  proof (cases "descendant_entry w tp name")
    case False
    then show ?thesis using Cons
      by (auto simp: Let_def descendant_entry_def tree_entry_def fetched_entry_def)
  next
    case True
    show ?thesis
    proof (cases "length ds < 1024")
      case l: True
      then have "1024 - length ds = Suc (1023 - length ds)" by simp
      moreover have "fst (collect_loop w tp (name # rest) ds)
          = fst (collect_loop w tp rest (ds @ [atoi name]))"
        using True l by (simp add: Let_def descendant_entry_def tree_entry_def fetched_entry_def)
      moreover have "length (ds @ [atoi name]) \<le> 1024" using l by simp
      ultimately show ?thesis using True Cons.IH [of "ds @ [atoi name]"] by simp
    next
      case l: False
      then show ?thesis using True Cons.prems
        by (simp add: Let_def descendant_entry_def tree_entry_def fetched_entry_def)
    qed
  qed
qed


lemma collect_loop_no_signal: "signals_sent (snd (collect_loop w tp names ds)) = []"
  by (induction names arbitrary: ds) (simp_all add: Let_def)

lemma kill_collected_signals:
  "n \<le> length ds \<Longrightarrow>
   signals_sent (snd (kill_collected k ds (int n - 1) w)) = map (\<lambda>p. (p, SIGKILL)) (rev (take n ds))"
proof (induction n arbitrary: w)
  case 0
  show ?case by (subst kill_collected.simps) simp
next
  case (Suc n)
  have "signals_sent (snd (kill_collected k ds (int (Suc n) - 1) w))
      = (ds ! n, SIGKILL) # signals_sent (snd (kill_collected k ds (int n - 1) (snd (k (ds ! n) SIGKILL w))))"
    by (subst kill_collected.simps) (simp add: Let_def split: option.splits)
  then show ?case using Suc by (simp add: take_Suc_conv_app_nth)
qed


lemma rescan_loop_spares_target:
  "Sys_kill tp s \<notin> set (snd (rescan_loop k tp names w m))"
  by (induction names arbitrary: w m)
     (simp_all add: Let_def print_error_def split: option.splits)


lemma rescan_spares_target: "Sys_kill tp s \<notin> set (snd (rescan k w tp))"
  by (simp add: rescan_def Let_def rescan_loop_spares_target split: sum.splits)


lemma descendant_entry_not_target:
  "tp \<notin> set (map atoi (filter (descendant_entry w tp) names))"
  by (auto simp: descendant_entry_def)

lemma kill_descendants_trace:
  assumes "proc_dir w = Inr names"
  shows "snd (kill_descendants k w tp) =
     Opendir_proc # snd (collect_loop w tp names [])
       @ snd (kill_collected k (fst (collect_loop w tp names []))
                (int (length (fst (collect_loop w tp names []))) - 1) w)
       @ snd (rescan k (fst (kill_collected k (fst (collect_loop w tp names []))
                (int (length (fst (collect_loop w tp names []))) - 1) w)) tp)"
  using assms by (simp add: kill_descendants_def Let_def)

section \<open>The crowded table\<close>















section \<open>Facts about the example tables\<close>

lemma small_table_reads:
  "get_process_info small_table 1 = \<lparr>pid = 1, ppid = 0, state = CHR ''S''\<rparr>"
  "get_process_info small_table 2 = \<lparr>pid = 2, ppid = 0, state = CHR ''S''\<rparr>"
  "get_process_info small_table 10 = \<lparr>pid = 10, ppid = 1, state = CHR ''S''\<rparr>"
  "get_process_info small_table 20 = \<lparr>pid = 20, ppid = 10, state = CHR ''Z''\<rparr>"
  "get_process_info small_table 21 = \<lparr>pid = 21, ppid = 10, state = CHR ''S''\<rparr>"
  "get_process_info small_table 30 = \<lparr>pid = 30, ppid = 21, state = CHR ''S''\<rparr>"
  "get_process_info small_table 77 = \<lparr>pid = 0, ppid = 0, state = CHR '' ''\<rparr>"
  by (simp_all add: get_process_info_def small_table_def stat_table_def)

lemma small_table_dir:
  "proc_dir small_table =
     Inr [''.'', ''..'', ''1'', ''2'', ''10'', ''20'', ''21'', ''30'', ''77'', ''self'']"
  by (simp add: small_table_def)



lemma example_arguments:
  "atoi ''77'' = 77" "atoi ''10'' = 10"
  by code_simp+

section \<open>Tree membership (claims C1 and C10)\<close>

text \<open>
  Claim C1. For every root and target, \<^verbatim>\<open>is_in_tree(root, target)\<close> returns true
  exactly when the root appears in the ancestor chain of the target: the target itself,
  then at most 1000 parent links upwards. The chain never contains pid 0 beyond the target
  (a parent link of 0 ends it) and never has more than 1000 ancestors, so the function
  returns false when the chain reaches pid 0 or the bound of 1000 hops is used up before
  the root is met.
\<close>

theorem is_in_tree_iff_ancestor_chain:
  "fst (is_in_tree w root_pid target_pid) = (root_pid \<in> set (ancestor_chain w 1000 target_pid))
   \<and> 0 \<notin> set (ancestors w 1000 target_pid)
   \<and> length (ancestors w 1000 target_pid) \<le> 1000"
  by (auto simp: is_in_tree_def ancestor_chain_def Let_def loop_result ancestors_1000
        ancestors_nonzero ancestors_length)

text \<open>
  In the small table process 30 descends from init over 21 and 10. In the deep table init
  is the 1000th ancestor of process 1001, and is found; it is the 1001st ancestor of
  process 1002, and is not.
\<close>

lemma is_in_tree_examples:
  "is_in_tree small_table 1 30 = (True, [Fopen_stat 30, Fopen_stat 21, Fopen_stat 10])"
  "ancestor_chain small_table 1000 30 = [30, 21, 10, 1]"
  "fst (is_in_tree deep_table 1 1001)"
  "\<not> fst (is_in_tree deep_table 1 1002)"
  by code_simp+

text \<open>
  Claim C10. When the root is not the target and the record of the target cannot be
  fetched, \<^verbatim>\<open>is_in_tree\<close> returns false, and the only stat file it has read is the
  one of the target: no ancestor is looked up.
\<close>

theorem is_in_tree_unreadable_target:
  "root_pid \<noteq> target_pid \<Longrightarrow> pid (get_process_info w target_pid) = 0 \<Longrightarrow>
   is_in_tree w root_pid target_pid = (False, [Fopen_stat target_pid])"
  by (simp add: is_in_tree_def)

theorem is_in_tree_unreadable_target_witness:
  "(1::int) \<noteq> 77 \<and> pid (get_process_info small_table 77) = 0
   \<and> is_in_tree small_table 1 77 = (False, [Fopen_stat 77])"
  using is_in_tree_unreadable_target [of 1 77 small_table]
  by (simp add: small_table_reads)

section \<open>Listings and counts (claims C4, C5 and C8)\<close>

text \<open>
  Claim C4. In every bulk scan an entry whose fetch fails is left out of the results.
  \<^verbatim>\<open>list_siblings\<close> does not do so: its loop never tests \<^verbatim>\<open>curr_info.pid\<close>, and
  the record of a failed fetch has parent pid 0, so for a target whose own parent pid is 0
  every entry that could not be read is printed as a sibling. In the small table the stat
  file of 77 cannot be opened, and the siblings listed for init are 2 and 77.
\<close>

theorem list_siblings_prints_unreadable:
  "pid (get_process_info small_table 77) = 0
   \<and> list_siblings small_table 1 =
       [Fopen_stat 1, Opendir_proc, Fopen_stat 2, Stdout (Pid_line 2), Fopen_stat 10,
        Fopen_stat 20, Fopen_stat 21, Fopen_stat 30, Fopen_stat 77, Stdout (Pid_line 77)]"
  by code_simp

text \<open>
  Claim C5. When \<^verbatim>\<open>/proc\<close> can be listed, the defunct count of a target is the number
  of pids that the listing of its zombie descendants prints plus the number of directory
  entries that name the target itself, are fetched and are zombies: the count takes in the
  target, the listing never prints it. So the count is at least the length of the listing,
  the two are equal when the target is not a zombie, and the count is strictly larger when
  the target is listed in the directory, fetched and a zombie.
\<close>

theorem defunct_count_vs_listing:
  assumes "proc_dir w = Inr names"
  shows "fst (count_defunct_descendants w t)
           = int (length (printed_pids (list_defunct_descendants w t)))
             + int (length (filter (\<lambda>n. fetched_entry w n \<and> atoi n = t \<and> zombie_entry w n) names))
       \<and> int (length (printed_pids (list_defunct_descendants w t)))
           \<le> fst (count_defunct_descendants w t)
       \<and> (state (get_process_info w t) \<noteq> CHR ''Z'' \<longrightarrow>
            fst (count_defunct_descendants w t)
              = int (length (printed_pids (list_defunct_descendants w t))))
       \<and> t \<notin> set (printed_pids (list_defunct_descendants w t))
       \<and> ((\<exists>n \<in> set names. numeric_entry n \<and> atoi n = t)
            \<and> pid (get_process_info w t) \<noteq> 0 \<and> state (get_process_info w t) = CHR ''Z'' \<longrightarrow>
            int (length (printed_pids (list_defunct_descendants w t)))
              < fst (count_defunct_descendants w t))"
proof -
  let ?P = "\<lambda>n. tree_entry w t n \<and> zombie_entry w n"
  let ?Q = "\<lambda>n. atoi n \<noteq> t"
  let ?T = "\<lambda>n. fetched_entry w n \<and> atoi n = t \<and> zombie_entry w n"
  have c: "fst (count_defunct_descendants w t) = int (length (filter ?P names))"
    using assms by (simp add: count_defunct_descendants_def count_defunct_loop_result)
  have p: "printed_pids (list_defunct_descendants w t)
            = map atoi (filter (\<lambda>n. ?P n \<and> ?Q n) names)"
    using assms
    by (simp add: list_defunct_descendants_def defunct_descendants_loop_printed
          descendant_entry_def conj_ac)
  then have l: "length (printed_pids (list_defunct_descendants w t))
            = length (filter (\<lambda>n. ?P n \<and> ?Q n) names)"
    by simp
  have s: "length (filter ?P names)
      = length (filter (\<lambda>n. ?P n \<and> ?Q n) names) + length (filter (\<lambda>n. ?P n \<and> \<not> ?Q n) names)"
    by (rule length_filter_split)
  have "(\<lambda>n. ?P n \<and> \<not> ?Q n) = ?T"
    by (auto simp: tree_entry_def)
  then have e: "filter (\<lambda>n. ?P n \<and> \<not> ?Q n) names = filter ?T names"
    by simp
  have z: "state (get_process_info w t) \<noteq> CHR ''Z'' \<Longrightarrow> filter ?T names = []"
    by (auto simp: filter_empty_conv zombie_entry_def)
  have x: "t \<notin> set (printed_pids (list_defunct_descendants w t))"
    unfolding p by auto
  have y: "filter ?T names \<noteq> []"
    if "\<exists>n \<in> set names. numeric_entry n \<and> atoi n = t"
      and "pid (get_process_info w t) \<noteq> 0" and "state (get_process_info w t) = CHR ''Z''"
    using that by (auto simp: filter_empty_conv fetched_entry_def zombie_entry_def)
  have c1: "fst (count_defunct_descendants w t)
           = int (length (printed_pids (list_defunct_descendants w t)))
             + int (length (filter ?T names))"
    using c l s e by simp
  have c2: "int (length (printed_pids (list_defunct_descendants w t)))
           \<le> fst (count_defunct_descendants w t)"
    using c1 by simp
  have c3: "fst (count_defunct_descendants w t)
              = int (length (printed_pids (list_defunct_descendants w t)))"
    if "state (get_process_info w t) \<noteq> CHR ''Z''"
    using c1 z [OF that] by simp
  have c4: "int (length (printed_pids (list_defunct_descendants w t)))
              < fst (count_defunct_descendants w t)"
    if "(\<exists>n \<in> set names. numeric_entry n \<and> atoi n = t)
          \<and> pid (get_process_info w t) \<noteq> 0 \<and> state (get_process_info w t) = CHR ''Z''"
  proof -
    have "filter ?T names \<noteq> []" using that y by blast
    then have "0 < length (filter ?T names)" by simp
    then show ?thesis using c1 by simp
  qed
  show ?thesis
    by (intro conjI impI) (fact c1, fact c2, erule c3, fact x, erule c4)
qed

lemma small_table_lists_20:
  "\<exists>n \<in> set [''.'', ''..'', ''1'', ''2'', ''10'', ''20'', ''21'', ''30'', ''77'', ''self''].
     numeric_entry n \<and> atoi n = 20"
  by code_simp

theorem defunct_count_vs_listing_witness:
  "proc_dir small_table =
     Inr [''.'', ''..'', ''1'', ''2'', ''10'', ''20'', ''21'', ''30'', ''77'', ''self'']
   \<and> state (get_process_info small_table 10) \<noteq> CHR ''Z''
   \<and> fst (count_defunct_descendants small_table 10)
       = int (length (printed_pids (list_defunct_descendants small_table 10)))
   \<and> pid (get_process_info small_table 20) \<noteq> 0
   \<and> state (get_process_info small_table 20) = CHR ''Z''
   \<and> int (length (printed_pids (list_defunct_descendants small_table 20)))
       < fst (count_defunct_descendants small_table 20)"
proof -
  note r10 = defunct_count_vs_listing [OF small_table_dir, of 10]
  note r20 = defunct_count_vs_listing [OF small_table_dir, of 20]
  have a: "state (get_process_info small_table 10) \<noteq> CHR ''Z''"
    by (simp add: small_table_reads)
  have b: "pid (get_process_info small_table 20) \<noteq> 0"
    and c: "state (get_process_info small_table 20) = CHR ''Z''"
    by (simp_all add: small_table_reads)
  have "fst (count_defunct_descendants small_table 10)
       = int (length (printed_pids (list_defunct_descendants small_table 10)))"
    using r10 a by blast
  moreover have "int (length (printed_pids (list_defunct_descendants small_table 20)))
       < fst (count_defunct_descendants small_table 20)"
    using r20 small_table_lists_20 b c by blast
  ultimately show ?thesis using small_table_dir a b c by blast
qed

text \<open>The count is larger for a target that is a zombie itself, here process 20.\<close>

lemma defunct_count_includes_target:
  "fst (count_defunct_descendants small_table 20) = 1
   \<and> printed_pids (list_defunct_descendants small_table 20) = []"
  by code_simp

text \<open>
  Claim C8, amended. For every process table and every target whose own record does not
  name the target as its parent, no pid is printed both by the listing of the
  grandchildren and by the listing of the children of the target.
\<close>

theorem grandchildren_children_disjoint:
  assumes "ppid (get_process_info w t) \<noteq> t"
  shows "set (printed_pids (list_grandchildren w t))
           \<inter> set (printed_pids (list_immediate_descendants w t)) = {}"
proof -
  have "False" if g: "g \<in> set (printed_pids (list_grandchildren w t))"
    and c: "g \<in> set (printed_pids (list_immediate_descendants w t))" for g
  proof -
    from g have 1: "ppid (get_process_info w (ppid (get_process_info w g))) = t"
      by (auto simp: list_grandchildren_def split: sum.splits dest: grandchildren_outer_printed)
    from c have 2: "ppid (get_process_info w g) = t"
      by (auto simp: list_immediate_descendants_def immediate_loop_printed split: sum.splits)
    from 1 2 assms show False by simp
  qed
  then show ?thesis by blast
qed

theorem grandchildren_children_disjoint_witness:
  "ppid (get_process_info small_table 10) \<noteq> 10
   \<and> set (printed_pids (list_grandchildren small_table 10))
       \<inter> set (printed_pids (list_immediate_descendants small_table 10)) = {}"
  using grandchildren_children_disjoint [of small_table 10]
  by (simp add: small_table_reads)

text \<open>
  Claim C8 as stated, for every table and target, fails on a table in which a process is
  recorded as its own parent: process 5 is then listed as its own child and as its own
  grandchild.
\<close>

theorem grandchildren_children_overlap:
  "set (printed_pids (list_grandchildren self_parent_table 5))
     \<inter> set (printed_pids (list_immediate_descendants self_parent_table 5)) \<noteq> {}"
  by code_simp

lemma self_parent_listings:
  "printed_pids (list_immediate_descendants self_parent_table 5) = [5]
   \<and> printed_pids (list_grandchildren self_parent_table 5) = [5]"
  by code_simp

section \<open>Signal operations (claims C2, C3, C6 and C7)\<close>



text \<open>
  Claim C3. \<^verbatim>\<open>kill_zombie_parents\<close> reports whether any zombie was found among the
  descendants. The flag behind that report is set only when a \<^verbatim>\<open>kill\<close> succeeds: in
  the small table process 20 is a zombie in the tree of 10, the signal to its parent is
  refused, and the run ends with the line that no zombie processes were found.
\<close>

theorem kill_zombie_parents_refused:
  "state (get_process_info small_table 20) = CHR ''Z''
   \<and> fst (is_in_tree small_table 10 20)
   \<and> snd (kill_zombie_parents kernel_refuses small_table 10) =
       [Opendir_proc, Fopen_stat 1, Fopen_stat 1, Fopen_stat 2, Fopen_stat 2, Fopen_stat 10,
        Fopen_stat 20, Fopen_stat 20, Sys_kill 10 SIGKILL,
        Stderr (Error_line (Failed_kill_parent 10 20) 1), Fopen_stat 21, Fopen_stat 21,
        Fopen_stat 30, Fopen_stat 30, Fopen_stat 21, Fopen_stat 77,
        Stdout (No_zombies_found 10)]"
  by code_simp

text \<open>
  Claim C6. \<^verbatim>\<open>kill_descendants\<close> never sends a signal to the process it was called
  for, whatever the kernel does with the signals: not in the pass over the collected list
  and not in the rescan.
\<close>

theorem kill_descendants_spares_root: "Sys_kill tp s \<notin> set (snd (kill_descendants k w tp))"
proof (cases "proc_dir w")
  case (Inl e)
  then show ?thesis by (simp add: kill_descendants_def print_error_def)
next
  case (Inr names)
  let ?ds = "fst (collect_loop w tp names [])"
  have 1: "Sys_kill tp s \<notin> set (snd (collect_loop w tp names []))"
    using collect_loop_no_signal [of w tp names "[]"] signals_sent_set [of tp s]
    by (metis empty_iff empty_set)
  have "signals_sent (snd (kill_collected k ?ds (int (length ?ds) - 1) w))
      = map (\<lambda>p. (p, SIGKILL)) (rev ?ds)"
    using kill_collected_signals [of "length ?ds" ?ds k w] by simp
  moreover have "tp \<notin> set ?ds"
    using descendant_entry_not_target [of tp w names]
    by (auto simp: collect_loop_result dest: in_set_takeD)
  ultimately have 2: "Sys_kill tp s \<notin> set (snd (kill_collected k ?ds (int (length ?ds) - 1) w))"
    using signals_sent_set [of tp s "snd (kill_collected k ?ds (int (length ?ds) - 1) w)"]
    by auto
  show ?thesis
    using 1 2 by (simp add: kill_descendants_trace [OF Inr] rescan_spares_target)
qed



section \<open>The entry point (claim C9)\<close>

text \<open>
  Claim C9. When the record of the root pid cannot be fetched, the program exits with
  code 1 and writes an error to standard error; apart from the attempt to read the stat
  file of the root it touches nothing: no other stat file is read, \<^verbatim>\<open>/proc\<close> is not
  listed, no signal is sent and nothing goes to standard output. When the arguments pass
  the checks of their number and sign, the run is exactly the read of the root and the
  line that the root does not exist.
\<close>

theorem main_root_unreadable:
  assumes "pid (get_process_info w (atoi (argv ! 1))) = 0"
  shows "fst (main k w argv) = 1
       \<and> (\<exists>e. Stderr e \<in> set (snd (main k w argv)))
       \<and> (\<forall>ev \<in> set (snd (main k w argv)).
            ev = Fopen_stat (atoi (argv ! 1)) \<or> (\<exists>e. ev = Stderr e))
       \<and> (3 \<le> length argv \<and> length argv \<le> 4 \<and> 0 < atoi (argv ! 1) \<and> 0 < atoi (argv ! 2) \<longrightarrow>
            main k w argv
              = (1, [Fopen_stat (atoi (argv ! 1)), Stderr (Err_root_missing (atoi (argv ! 1)))]))"
  using assms by (auto simp: main_def Let_def)

theorem main_root_unreadable_witness:
  "pid (get_process_info small_table (atoi ([''prog'', ''77'', ''10'', ''-sk''] ! 1))) = 0
   \<and> main kernel_delivers small_table [''prog'', ''77'', ''10'', ''-sk'']
       = (1, [Fopen_stat 77, Stderr (Err_root_missing 77)])"
  using main_root_unreadable [of small_table "[''prog'', ''77'', ''10'', ''-sk'']" kernel_delivers]
  by (simp add: example_arguments small_table_reads)

text \<open>
  The arguments are cut to 32 bits before they are tested: the root argument 4294967297
  is process 1, and the run goes on to print the target.
\<close>

lemma main_wraps_root_argument:
  "atoi ''4294967297'' = 1"
  "atoi ''2147483649'' = - 2147483647"
  "main kernel_delivers small_table [''prog'', ''4294967297'', ''30'']
     = (0, [Fopen_stat 1, Fopen_stat 30, Fopen_stat 21, Fopen_stat 10, Fopen_stat 30,
            Stdout (Basic_info 30 21)])"
  "main kernel_delivers small_table [''prog'', ''2147483649'', ''30'']
     = (1, [Stderr Err_pids_not_positive, Stderr (Got_pids (- 2147483647) 30)])"
  by code_simp+

end
